theory Spec2Isabelle
  imports Main "HOL-Library.AList" "HOL-Library.Word"
begin

section \<open>The project properties header of Mile.Xaml\<close>

text \<open>
  The repository's one source file, \<^verbatim>\<open>Mile.Xaml/Mile.Project.Properties.h\<close>, is a C
  preprocessor header: an include guard around ten object-like macro definitions, one
  definition that is commented out, and a trailing \<^verbatim>\<open>#include\<close>. It is embedded as the
  list of its preprocessing directives, and the directives are given their meaning by a
  small preprocessor that runs over a macro table.
\<close>

subsection \<open>Preprocessing tokens, directives and the preprocessor state\<close>

text \<open>
  The replacement list of an object-like macro is a list of preprocessing tokens. The header
  uses two kinds: integer literals and narrow string literals. A string literal is kept as
  the bytes of the source file between its quotes. A macro defined with nothing after its
  name (the include guard) has the empty replacement list.
\<close>

datatype pp_token = PPNumber int | StringLiteral string

type_synonym replacement = "pp_token list"

text \<open>
  The directives: a comment (its lines; removed before directives are executed),
  \<^verbatim>\<open>#define\<close>, \<^verbatim>\<open>#undef\<close>, \<^verbatim>\<open>#ifndef ... #endif\<close> with the directives it encloses, and
  \<^verbatim>\<open>#include\<close> of a header given by name.
\<close>

datatype directive =
    Comment "string list"
  | Define string replacement
  | Undef string
  | IfNDef string "directive list"
  | Include string

text \<open>
  The state of the preprocessor: the macro table in definition order, and the headers whose
  inclusion has been requested so far, oldest first.
\<close>

record pp_state =
  macros :: "(string \<times> replacement) list"
  included :: "string list"

definition initial :: pp_state where
  "initial = \<lparr>macros = [], included = []\<rparr>"

definition is_defined :: "string \<Rightarrow> pp_state \<Rightarrow> bool" where
  "is_defined n s = (map_of (macros s) n \<noteq> None)"

text \<open>
  One directive. \<^verbatim>\<open>#define\<close> enters the macro in the table (replacing the replacement
  list of a macro of that name), \<^verbatim>\<open>#undef\<close> removes it, \<^verbatim>\<open>#ifndef\<close> runs the enclosed
  directives only when the name is not defined. The file named by an \<^verbatim>\<open>#include\<close>,
  \<^verbatim>\<open>Mile.Project.Version.h\<close>, is not among the sources: its inclusion is recorded and its
  own directives are not run.
\<close>

fun process :: "directive \<Rightarrow> pp_state \<Rightarrow> pp_state" where
  "process (Comment _) s = s"
| "process (Define n r) s = s\<lparr>macros := AList.update n r (macros s)\<rparr>"
| "process (Undef n) s = s\<lparr>macros := AList.delete n (macros s)\<rparr>"
| "process (IfNDef n body) s = (if is_defined n s then s else fold process body s)"
| "process (Include f) s = s\<lparr>included := included s @ [f]\<rparr>"

definition preprocess :: "directive list \<Rightarrow> pp_state \<Rightarrow> pp_state" where
  "preprocess ds s = fold process ds s"

subsection \<open>The header\<close>

text \<open>
  \<^verbatim>\<open>Mile.Project.Properties.h\<close>, directive by directive. The copyright sign of
  \<^verbatim>\<open>MILE_PROJECT_LEGAL_COPYRIGHT\<close> is stored in the file as the two bytes C2 A9, its
  UTF-8 encoding.
\<close>

definition Mile_Project_Properties_h :: "directive list" where
  \<open>Mile_Project_Properties_h =
    [ Comment
        [ '' PROJECT:   Mouri Internal Library Essentials'',
          '' FILE:      Mile.Project.Properties.h'',
          '' PURPOSE:   Project Properties for projects with Mile.Project'',
          '''',
          '' LICENSE:   The MIT License'',
          '''',
          '' DEVELOPER: Mouri_Naruto (Mouri_Naruto AT Outlook.com)'' ],
      IfNDef ''MILE_PROJECT_PROPERTIES''
        [ Define ''MILE_PROJECT_PROPERTIES'' [],
          Define ''MILE_PROJECT_VERSION_MAJOR'' [PPNumber 1],
          Define ''MILE_PROJECT_VERSION_MINOR'' [PPNumber 0],
          Define ''MILE_PROJECT_VERSION_BUILD'' [PPNumber 360],
          Define ''MILE_PROJECT_VERSION_REVISION'' [PPNumber 0],
          Comment [''#define MILE_PROJECT_VERSION_TAG L"Alpha 1"''],
          Define ''MILE_PROJECT_COMPANY_NAME'' [StringLiteral ''Project Mile''],
          Define ''MILE_PROJECT_FILE_DESCRIPTION'' [StringLiteral ''Mile.Xaml''],
          Define ''MILE_PROJECT_INTERNAL_NAME'' [StringLiteral ''Mile.Xaml''],
          Define ''MILE_PROJECT_LEGAL_COPYRIGHT''
            [StringLiteral (CHR 0xC2 # CHR 0xA9 # '' Project Mile. All rights reserved.'')],
          Define ''MILE_PROJECT_ORIGINAL_FILENAME'' [StringLiteral ''Mile.Xaml.dll''],
          Define ''MILE_PROJECT_PRODUCT_NAME'' [StringLiteral ''Mile.Xaml''] ],
      Include ''Mile.Project.Version.h'' ]\<close>

definition include_header :: "pp_state \<Rightarrow> pp_state" where
  "include_header s = preprocess Mile_Project_Properties_h s"

subsection \<open>Reading a constant\<close>

text \<open>
  A consumer reads a constant by name. The read fails when no macro of that name is
  defined, or when its replacement list is not a single token of the expected kind.
\<close>

datatype read_error = Undefined_Macro | Not_An_Integer | Not_A_String

definition read_int :: "string \<Rightarrow> pp_state \<Rightarrow> read_error + int" where
  "read_int n s =
     (case map_of (macros s) n of
        None \<Rightarrow> Inl Undefined_Macro
      | Some [PPNumber v] \<Rightarrow> Inr v
      | Some _ \<Rightarrow> Inl Not_An_Integer)"

definition read_string :: "string \<Rightarrow> pp_state \<Rightarrow> read_error + string" where
  "read_string n s =
     (case map_of (macros s) n of
        None \<Rightarrow> Inl Undefined_Macro
      | Some [StringLiteral v] \<Rightarrow> Inr v
      | Some _ \<Rightarrow> Inl Not_A_String)"

definition read_optional_string :: "string \<Rightarrow> pp_state \<Rightarrow> read_error + string option" where
  "read_optional_string n s =
     (case map_of (macros s) n of
        None \<Rightarrow> Inr None
      | Some [StringLiteral v] \<Rightarrow> Inr (Some v)
      | Some _ \<Rightarrow> Inl Not_A_String)"

text \<open>The first failing read decides the result of a sequence of reads.\<close>

definition and_then :: "read_error + 'a \<Rightarrow> ('a \<Rightarrow> read_error + 'b) \<Rightarrow> read_error + 'b" where
  "and_then r f = (case r of Inl e \<Rightarrow> Inl e | Inr v \<Rightarrow> f v)"

subsection \<open>What the file defines\<close>

text \<open>
  The \<^verbatim>\<open>#define\<close> and \<^verbatim>\<open>#undef\<close> directives written in a file, in file order, whether
  or not a conditional encloses them.
\<close>

fun definitions :: "directive \<Rightarrow> (string \<times> replacement) list" where
  "definitions (Define n r) = [(n, r)]"
| "definitions (IfNDef _ body) = concat (map definitions body)"
| "definitions _ = []"

fun removals :: "directive \<Rightarrow> string list" where
  "removals (Undef n) = [n]"
| "removals (IfNDef _ body) = concat (map removals body)"
| "removals _ = []"

definition header_definitions :: "(string \<times> replacement) list" where
  "header_definitions = concat (map definitions Mile_Project_Properties_h)"

definition header_removals :: "string list" where
  "header_removals = concat (map removals Mile_Project_Properties_h)"

text \<open>
  The name/value pairs of a macro table: the macros that carry a value, which leaves out
  a macro with the empty replacement list, such as an include guard.
\<close>

definition name_value_pairs :: "pp_state \<Rightarrow> (string \<times> replacement) list" where
  "name_value_pairs s = filter (\<lambda>(n, r). r \<noteq> []) (macros s)"

subsection \<open>The specification's view\<close>

text \<open>
  The specification's data model: the record \<open>ProjectProperties\<close>, field by field as the
  specification lists them.
\<close>

record ProjectProperties =
  versionMajor :: int
  versionMinor :: int
  versionBuild :: int
  versionRevision :: int
  versionTag :: "string option"
  companyName :: string
  fileDescription :: string
  internalName :: string
  legalCopyright :: string
  originalFilename :: string
  productName :: string

text \<open>
  The record is read from a macro table, each field from the macro that carries it. The
  version tag is optional: it has no value when its macro is not defined.
\<close>

definition read_properties :: "pp_state \<Rightarrow> read_error + ProjectProperties" where
  "read_properties s =
     and_then (read_int ''MILE_PROJECT_VERSION_MAJOR'' s) (\<lambda>major.
     and_then (read_int ''MILE_PROJECT_VERSION_MINOR'' s) (\<lambda>minor.
     and_then (read_int ''MILE_PROJECT_VERSION_BUILD'' s) (\<lambda>build.
     and_then (read_int ''MILE_PROJECT_VERSION_REVISION'' s) (\<lambda>revision.
     and_then (read_optional_string ''MILE_PROJECT_VERSION_TAG'' s) (\<lambda>tag.
     and_then (read_string ''MILE_PROJECT_COMPANY_NAME'' s) (\<lambda>company.
     and_then (read_string ''MILE_PROJECT_FILE_DESCRIPTION'' s) (\<lambda>description.
     and_then (read_string ''MILE_PROJECT_INTERNAL_NAME'' s) (\<lambda>internal.
     and_then (read_string ''MILE_PROJECT_LEGAL_COPYRIGHT'' s) (\<lambda>copyright.
     and_then (read_string ''MILE_PROJECT_ORIGINAL_FILENAME'' s) (\<lambda>filename.
     and_then (read_string ''MILE_PROJECT_PRODUCT_NAME'' s) (\<lambda>product.
       Inr \<lparr> versionMajor = major, versionMinor = minor, versionBuild = build,
             versionRevision = revision, versionTag = tag, companyName = company,
             fileDescription = description, internalName = internal,
             legalCopyright = copyright, originalFilename = filename,
             productName = product \<rparr>)))))))))))"

text \<open>
  The names the specification's system overview gives to the pairs of the table, each as
  the macro that carries it: product name, version major, minor, build and revision,
  company name, copyright string, file description, original filename.
\<close>

definition overview_names :: "string list" where
  "overview_names =
     [ ''MILE_PROJECT_PRODUCT_NAME'',
       ''MILE_PROJECT_VERSION_MAJOR'',
       ''MILE_PROJECT_VERSION_MINOR'',
       ''MILE_PROJECT_VERSION_BUILD'',
       ''MILE_PROJECT_VERSION_REVISION'',
       ''MILE_PROJECT_COMPANY_NAME'',
       ''MILE_PROJECT_LEGAL_COPYRIGHT'',
       ''MILE_PROJECT_FILE_DESCRIPTION'',
       ''MILE_PROJECT_ORIGINAL_FILENAME'' ]"

text \<open>A version resource stores each version component in a 16-bit word.\<close>

definition version_word :: "int \<Rightarrow> 16 word" where
  "version_word v = word_of_int v"

section \<open>Properties\<close>

subsection \<open>The macro table after an inclusion\<close>

lemma first_inclusion_macros:
  "\<not> is_defined ''MILE_PROJECT_PROPERTIES'' s \<Longrightarrow>
   macros (include_header s) =
     fold (\<lambda>(n, r). AList.update n r)
       [ (''MILE_PROJECT_PROPERTIES'', []),
         (''MILE_PROJECT_VERSION_MAJOR'', [PPNumber 1]),
         (''MILE_PROJECT_VERSION_MINOR'', [PPNumber 0]),
         (''MILE_PROJECT_VERSION_BUILD'', [PPNumber 360]),
         (''MILE_PROJECT_VERSION_REVISION'', [PPNumber 0]),
         (''MILE_PROJECT_COMPANY_NAME'', [StringLiteral ''Project Mile'']),
         (''MILE_PROJECT_FILE_DESCRIPTION'', [StringLiteral ''Mile.Xaml'']),
         (''MILE_PROJECT_INTERNAL_NAME'', [StringLiteral ''Mile.Xaml'']),
         (''MILE_PROJECT_LEGAL_COPYRIGHT'',
            [StringLiteral (CHR 0xC2 # CHR 0xA9 # '' Project Mile. All rights reserved.'')]),
         (''MILE_PROJECT_ORIGINAL_FILENAME'', [StringLiteral ''Mile.Xaml.dll'']),
         (''MILE_PROJECT_PRODUCT_NAME'', [StringLiteral ''Mile.Xaml'']) ]
       (macros s)"
  by (simp add: include_header_def preprocess_def Mile_Project_Properties_h_def)

lemma header_definitions_eq:
  "header_definitions =
     [ (''MILE_PROJECT_PROPERTIES'', []),
       (''MILE_PROJECT_VERSION_MAJOR'', [PPNumber 1]),
       (''MILE_PROJECT_VERSION_MINOR'', [PPNumber 0]),
       (''MILE_PROJECT_VERSION_BUILD'', [PPNumber 360]),
       (''MILE_PROJECT_VERSION_REVISION'', [PPNumber 0]),
       (''MILE_PROJECT_COMPANY_NAME'', [StringLiteral ''Project Mile'']),
       (''MILE_PROJECT_FILE_DESCRIPTION'', [StringLiteral ''Mile.Xaml'']),
       (''MILE_PROJECT_INTERNAL_NAME'', [StringLiteral ''Mile.Xaml'']),
       (''MILE_PROJECT_LEGAL_COPYRIGHT'',
          [StringLiteral (CHR 0xC2 # CHR 0xA9 # '' Project Mile. All rights reserved.'')]),
       (''MILE_PROJECT_ORIGINAL_FILENAME'', [StringLiteral ''Mile.Xaml.dll'']),
       (''MILE_PROJECT_PRODUCT_NAME'', [StringLiteral ''Mile.Xaml'']) ]"
  by (simp add: header_definitions_def Mile_Project_Properties_h_def)

lemma first_inclusion_table:
  "\<not> is_defined ''MILE_PROJECT_PROPERTIES'' s \<Longrightarrow>
   macros (include_header s) = fold (\<lambda>(n, r). AList.update n r) header_definitions (macros s)"
  by (simp add: first_inclusion_macros header_definitions_eq)

lemma initial_table: "macros (include_header initial) = header_definitions"
  by (simp add: first_inclusion_table is_defined_def initial_def)
     (simp add: header_definitions_eq)

lemma guard_defined_after: "is_defined ''MILE_PROJECT_PROPERTIES'' (include_header s)"
proof (cases "is_defined ''MILE_PROJECT_PROPERTIES'' s")
  case True
  then show ?thesis
    by (simp add: include_header_def preprocess_def Mile_Project_Properties_h_def is_defined_def)
next
  case False
  then show ?thesis
    by (simp add: is_defined_def first_inclusion_macros update_conv')
qed

lemma later_inclusion:
  "is_defined ''MILE_PROJECT_PROPERTIES'' s \<Longrightarrow>
   include_header s = s\<lparr>included := included s @ [''Mile.Project.Version.h'']\<rparr>"
  by (simp add: include_header_def preprocess_def Mile_Project_Properties_h_def)

lemma included_after:
  "included (include_header s) = included s @ [''Mile.Project.Version.h'']"
  by (simp add: include_header_def preprocess_def Mile_Project_Properties_h_def)

lemma repeated_inclusion_macros:
  "macros ((include_header ^^ Suc k) s) = macros (include_header s)"
proof (induction k)
  case 0
  show ?case by simp
next
  case (Suc k)
  let ?t = "(include_header ^^ Suc k) s"
  have "?t = include_header ((include_header ^^ k) s)"
    by simp
  then have guard: "is_defined ''MILE_PROJECT_PROPERTIES'' ?t"
    by (simp only: guard_defined_after)
  have "(include_header ^^ Suc (Suc k)) s = include_header ?t"
    by simp
  then have "macros ((include_header ^^ Suc (Suc k)) s) = macros ?t"
    by (simp only: later_inclusion [OF guard]) simp
  with Suc show ?case
    by simp
qed

lemma repeated_inclusion_included:
  "included ((include_header ^^ k) s) = included s @ replicate k ''Mile.Project.Version.h''"
  by (induction k) (simp_all add: included_after replicate_append_same)


lemma initial_properties:
  "read_properties (include_header initial) =
     Inr \<lparr> versionMajor = 1, versionMinor = 0, versionBuild = 360, versionRevision = 0,
           versionTag = None, companyName = ''Project Mile'',
           fileDescription = ''Mile.Xaml'', internalName = ''Mile.Xaml'',
           legalCopyright = CHR 0xC2 # CHR 0xA9 # '' Project Mile. All rights reserved.'',
           originalFilename = ''Mile.Xaml.dll'', productName = ''Mile.Xaml'' \<rparr>"
  by (simp add: read_properties_def and_then_def read_int_def read_string_def
      read_optional_string_def initial_table header_definitions_eq)

lemma initial_pair_names:
  "map fst (name_value_pairs (include_header initial)) =
     [ ''MILE_PROJECT_VERSION_MAJOR'', ''MILE_PROJECT_VERSION_MINOR'',
       ''MILE_PROJECT_VERSION_BUILD'', ''MILE_PROJECT_VERSION_REVISION'',
       ''MILE_PROJECT_COMPANY_NAME'', ''MILE_PROJECT_FILE_DESCRIPTION'',
       ''MILE_PROJECT_INTERNAL_NAME'', ''MILE_PROJECT_LEGAL_COPYRIGHT'',
       ''MILE_PROJECT_ORIGINAL_FILENAME'', ''MILE_PROJECT_PRODUCT_NAME'' ]"
  by (simp add: name_value_pairs_def initial_table header_definitions_eq)

lemma repeated_initial_table:
  "macros ((include_header ^^ Suc k) initial) = header_definitions"
  by (simp only: repeated_inclusion_macros initial_table)

lemma read_int_macros: "macros s = macros t \<Longrightarrow> read_int n s = read_int n t"
  by (simp add: read_int_def)

lemma read_string_macros: "macros s = macros t \<Longrightarrow> read_string n s = read_string n t"
  by (simp add: read_string_def)

lemma read_properties_macros:
  "macros s = macros t \<Longrightarrow> read_properties s = read_properties t"
  by (simp add: read_properties_def read_int_def read_string_def read_optional_string_def)

lemma distinct_header_names: "distinct (map fst header_definitions)"
  by (simp add: header_definitions_eq)

subsection \<open>The constants\<close>

text \<open>
  C1. Wherever the header is included for the first time (its guard is not yet defined),
  the four version constants read as the integers 1, 0, 360 and 0: major, minor, build,
  revision.
\<close>

theorem version_constants:
  "\<not> is_defined ''MILE_PROJECT_PROPERTIES'' s \<Longrightarrow>
   read_int ''MILE_PROJECT_VERSION_MAJOR'' (include_header s) = Inr 1 \<and>
   read_int ''MILE_PROJECT_VERSION_MINOR'' (include_header s) = Inr 0 \<and>
   read_int ''MILE_PROJECT_VERSION_BUILD'' (include_header s) = Inr 360 \<and>
   read_int ''MILE_PROJECT_VERSION_REVISION'' (include_header s) = Inr 0"
  by (simp add: read_int_def first_inclusion_macros update_conv')

theorem version_constants_witness:
  "\<not> is_defined ''MILE_PROJECT_PROPERTIES'' initial \<and>
   read_int ''MILE_PROJECT_VERSION_MAJOR'' (include_header initial) = Inr 1 \<and>
   read_int ''MILE_PROJECT_VERSION_MINOR'' (include_header initial) = Inr 0 \<and>
   read_int ''MILE_PROJECT_VERSION_BUILD'' (include_header initial) = Inr 360 \<and>
   read_int ''MILE_PROJECT_VERSION_REVISION'' (include_header initial) = Inr 0"
  using version_constants [of initial] by (simp add: is_defined_def initial_def)

text \<open>
  C2. On a first inclusion each string constant reads as its literal: the company name
  \<open>Project Mile\<close>, the file description, the internal name and the product name
  \<open>Mile.Xaml\<close>, the original filename \<open>Mile.Xaml.dll\<close>, and the legal copyright, which
  is the copyright sign (the bytes C2 A9 of its UTF-8 encoding) followed by
  \<open> Project Mile. All rights reserved.\<close>
\<close>

theorem string_constants:
  "\<not> is_defined ''MILE_PROJECT_PROPERTIES'' s \<Longrightarrow>
   read_string ''MILE_PROJECT_COMPANY_NAME'' (include_header s) = Inr ''Project Mile'' \<and>
   read_string ''MILE_PROJECT_FILE_DESCRIPTION'' (include_header s) = Inr ''Mile.Xaml'' \<and>
   read_string ''MILE_PROJECT_INTERNAL_NAME'' (include_header s) = Inr ''Mile.Xaml'' \<and>
   read_string ''MILE_PROJECT_LEGAL_COPYRIGHT'' (include_header s) =
     Inr (CHR 0xC2 # CHR 0xA9 # '' Project Mile. All rights reserved.'') \<and>
   read_string ''MILE_PROJECT_ORIGINAL_FILENAME'' (include_header s) = Inr ''Mile.Xaml.dll'' \<and>
   read_string ''MILE_PROJECT_PRODUCT_NAME'' (include_header s) = Inr ''Mile.Xaml''"
  by (simp add: read_string_def first_inclusion_macros update_conv')

theorem string_constants_witness:
  "\<not> is_defined ''MILE_PROJECT_PROPERTIES'' initial \<and>
   read_string ''MILE_PROJECT_COMPANY_NAME'' (include_header initial) = Inr ''Project Mile'' \<and>
   read_string ''MILE_PROJECT_FILE_DESCRIPTION'' (include_header initial) = Inr ''Mile.Xaml'' \<and>
   read_string ''MILE_PROJECT_INTERNAL_NAME'' (include_header initial) = Inr ''Mile.Xaml'' \<and>
   read_string ''MILE_PROJECT_LEGAL_COPYRIGHT'' (include_header initial) =
     Inr (CHR 0xC2 # CHR 0xA9 # '' Project Mile. All rights reserved.'') \<and>
   read_string ''MILE_PROJECT_ORIGINAL_FILENAME'' (include_header initial) =
     Inr ''Mile.Xaml.dll'' \<and>
   read_string ''MILE_PROJECT_PRODUCT_NAME'' (include_header initial) = Inr ''Mile.Xaml''"
  using string_constants [of initial] by (simp add: is_defined_def initial_def)

text \<open>
  C3. The header exposes exactly the fields of the record \<open>ProjectProperties\<close>. Read from
  the table that the header builds from the empty one, the record has its four integer
  fields and its six string fields, and no version tag; the macros of the table that carry
  a value are the ten macros of these fields and no other; the one further macro of the
  table is the include guard, which carries no value.
\<close>

theorem project_properties_fields:
  "read_properties (include_header initial) =
     Inr \<lparr> versionMajor = 1, versionMinor = 0, versionBuild = 360, versionRevision = 0,
           versionTag = None, companyName = ''Project Mile'',
           fileDescription = ''Mile.Xaml'', internalName = ''Mile.Xaml'',
           legalCopyright = CHR 0xC2 # CHR 0xA9 # '' Project Mile. All rights reserved.'',
           originalFilename = ''Mile.Xaml.dll'', productName = ''Mile.Xaml'' \<rparr> \<and>
   map fst (name_value_pairs (include_header initial)) =
     [ ''MILE_PROJECT_VERSION_MAJOR'', ''MILE_PROJECT_VERSION_MINOR'',
       ''MILE_PROJECT_VERSION_BUILD'', ''MILE_PROJECT_VERSION_REVISION'',
       ''MILE_PROJECT_COMPANY_NAME'', ''MILE_PROJECT_FILE_DESCRIPTION'',
       ''MILE_PROJECT_INTERNAL_NAME'', ''MILE_PROJECT_LEGAL_COPYRIGHT'',
       ''MILE_PROJECT_ORIGINAL_FILENAME'', ''MILE_PROJECT_PRODUCT_NAME'' ] \<and>
   map fst (macros (include_header initial)) =
     ''MILE_PROJECT_PROPERTIES'' # map fst (name_value_pairs (include_header initial))"
proof (intro conjI)
  show "map fst (macros (include_header initial)) =
     ''MILE_PROJECT_PROPERTIES'' # map fst (name_value_pairs (include_header initial))"
    by (simp add: initial_pair_names) (simp add: initial_table header_definitions_eq)
qed (simp_all only: initial_properties initial_pair_names)

text \<open>
  C4, as stated, fails: the name/value pairs of the table that the header builds are not
  exactly the nine pairs that the system overview names.
\<close>

theorem overview_pairs_counterexample:
  "set (map fst (name_value_pairs (include_header initial))) \<noteq> set overview_names"
proof
  assume "set (map fst (name_value_pairs (include_header initial))) = set overview_names"
  moreover have "''MILE_PROJECT_INTERNAL_NAME'' \<notin> set overview_names"
    by (simp add: overview_names_def)
  ultimately have "''MILE_PROJECT_INTERNAL_NAME'' \<notin>
      set (map fst (name_value_pairs (include_header initial)))"
    by simp
  then show False
    by (simp add: initial_pair_names)
qed

text \<open>
  C4, amended. The name/value pairs of the table are exactly the nine pairs that the system
  overview names together with the internal name, ten pairs with ten different names; the
  internal name is \<open>Mile.Xaml\<close>.
\<close>

theorem overview_pairs_and_internal_name:
  "set (map fst (name_value_pairs (include_header initial))) =
     set overview_names \<union> {''MILE_PROJECT_INTERNAL_NAME''} \<and>
   distinct (map fst (name_value_pairs (include_header initial))) \<and>
   read_string ''MILE_PROJECT_INTERNAL_NAME'' (include_header initial) = Inr ''Mile.Xaml''"
proof (intro conjI)
  have reorder: "set [a, b, c, d, e, f, g, h, i, j] = set [j, a, b, c, d, e, h, f, i] \<union> {g}"
    for a b c d e f g h i j :: string
    by auto
  show "set (map fst (name_value_pairs (include_header initial))) =
     set overview_names \<union> {''MILE_PROJECT_INTERNAL_NAME''}"
    by (simp only: initial_pair_names overview_names_def reorder)
  show "distinct (map fst (name_value_pairs (include_header initial)))"
    by (simp add: initial_pair_names)
  show "read_string ''MILE_PROJECT_INTERNAL_NAME'' (include_header initial) = Inr ''Mile.Xaml''"
    by (simp add: read_string_def initial_table header_definitions_eq)
qed

text \<open>
  C5. The version tag carries no value. No inclusion of the header defines (or removes)
  \<^verbatim>\<open>MILE_PROJECT_VERSION_TAG\<close>, whose definition is commented out; in the table built from
  the empty one the macro is not defined, reading it as an optional string gives no value,
  and the field \<open>versionTag\<close> of the record is \<open>None\<close>.
\<close>

theorem version_tag_absent:
  "is_defined ''MILE_PROJECT_VERSION_TAG'' (include_header s) =
     is_defined ''MILE_PROJECT_VERSION_TAG'' s \<and>
   \<not> is_defined ''MILE_PROJECT_VERSION_TAG'' (include_header initial) \<and>
   read_optional_string ''MILE_PROJECT_VERSION_TAG'' (include_header initial) = Inr None \<and>
   and_then (read_properties (include_header initial)) (\<lambda>p. Inr (versionTag p)) = Inr None"
proof (intro conjI)
  show "is_defined ''MILE_PROJECT_VERSION_TAG'' (include_header s) =
     is_defined ''MILE_PROJECT_VERSION_TAG'' s"
  proof (cases "is_defined ''MILE_PROJECT_PROPERTIES'' s")
    case True
    then show ?thesis
      by (simp add: later_inclusion is_defined_def)
  next
    case False
    then show ?thesis
      by (simp add: is_defined_def first_inclusion_macros update_conv')
  qed
  show "\<not> is_defined ''MILE_PROJECT_VERSION_TAG'' (include_header initial)"
    by (simp add: is_defined_def initial_table header_definitions_eq)
  show "read_optional_string ''MILE_PROJECT_VERSION_TAG'' (include_header initial) = Inr None"
    by (simp add: read_optional_string_def initial_table header_definitions_eq)
  show "and_then (read_properties (include_header initial)) (\<lambda>p. Inr (versionTag p)) = Inr None"
    by (simp add: initial_properties and_then_def)
qed

text \<open>
  C6. The properties are immutable. The file defines each of its macros once (its eleven
  definitions have eleven different names) and removes none; after the first inclusion no
  further inclusion changes the macro table; and a constant reads the same after any two
  numbers of inclusions.
\<close>

theorem properties_immutable:
  "map fst header_definitions =
     [ ''MILE_PROJECT_PROPERTIES'',
       ''MILE_PROJECT_VERSION_MAJOR'', ''MILE_PROJECT_VERSION_MINOR'',
       ''MILE_PROJECT_VERSION_BUILD'', ''MILE_PROJECT_VERSION_REVISION'',
       ''MILE_PROJECT_COMPANY_NAME'', ''MILE_PROJECT_FILE_DESCRIPTION'',
       ''MILE_PROJECT_INTERNAL_NAME'', ''MILE_PROJECT_LEGAL_COPYRIGHT'',
       ''MILE_PROJECT_ORIGINAL_FILENAME'', ''MILE_PROJECT_PRODUCT_NAME'' ] \<and>
   distinct (map fst header_definitions) \<and>
   header_removals = [] \<and>
   macros ((include_header ^^ Suc i) s) = macros (include_header s) \<and>
   read_int n ((include_header ^^ Suc i) s) = read_int n ((include_header ^^ Suc j) s) \<and>
   read_string n ((include_header ^^ Suc i) s) = read_string n ((include_header ^^ Suc j) s)"
proof (intro conjI)
  show "header_removals = []"
    by (simp add: header_removals_def Mile_Project_Properties_h_def)
  have same: "macros ((include_header ^^ Suc i) s) = macros ((include_header ^^ Suc j) s)"
    by (simp only: repeated_inclusion_macros)
  show "read_int n ((include_header ^^ Suc i) s) = read_int n ((include_header ^^ Suc j) s)"
    using same by (rule read_int_macros)
  show "read_string n ((include_header ^^ Suc i) s) =
      read_string n ((include_header ^^ Suc j) s)"
    using same by (rule read_string_macros)
qed (simp_all only: repeated_inclusion_macros distinct_header_names, simp add: header_definitions_eq)

text \<open>
  C7. Reading a defined constant never fails. After any number of inclusions of the header,
  from the empty table, every macro that the file defines as an integer literal reads as
  that integer, every macro that it defines as a string literal reads as that string, and
  the record as a whole is read without an error.
\<close>

theorem reading_never_fails:
  "((n, [PPNumber v]) \<in> set header_definitions \<longrightarrow>
      read_int n ((include_header ^^ Suc k) initial) = Inr v) \<and>
   ((m, [StringLiteral t]) \<in> set header_definitions \<longrightarrow>
      read_string m ((include_header ^^ Suc k) initial) = Inr t) \<and>
   (\<exists>p. read_properties ((include_header ^^ Suc k) initial) = Inr p)"
proof (intro conjI impI)
  assume "(n, [PPNumber v]) \<in> set header_definitions"
  then have "map_of header_definitions n = Some [PPNumber v]"
    by (simp only: map_of_eq_Some_iff [OF distinct_header_names])
  then show "read_int n ((include_header ^^ Suc k) initial) = Inr v"
    by (simp add: read_int_def repeated_initial_table del: funpow.simps)
next
  assume "(m, [StringLiteral t]) \<in> set header_definitions"
  then have "map_of header_definitions m = Some [StringLiteral t]"
    by (simp only: map_of_eq_Some_iff [OF distinct_header_names])
  then show "read_string m ((include_header ^^ Suc k) initial) = Inr t"
    by (simp add: read_string_def repeated_initial_table del: funpow.simps)
next
  have "macros ((include_header ^^ Suc k) initial) = macros (include_header initial)"
    by (simp only: repeated_inclusion_macros)
  then have "read_properties ((include_header ^^ Suc k) initial) =
      read_properties (include_header initial)"
    by (rule read_properties_macros)
  then show "\<exists>p. read_properties ((include_header ^^ Suc k) initial) = Inr p"
    by (simp only: initial_properties) blast
qed

theorem reading_never_fails_witness:
  "(''MILE_PROJECT_VERSION_BUILD'', [PPNumber 360]) \<in> set header_definitions \<and>
   read_int ''MILE_PROJECT_VERSION_BUILD'' (include_header (include_header initial)) = Inr 360 \<and>
   (''MILE_PROJECT_PRODUCT_NAME'', [StringLiteral ''Mile.Xaml'']) \<in> set header_definitions \<and>
   read_string ''MILE_PROJECT_PRODUCT_NAME'' (include_header (include_header initial)) =
     Inr ''Mile.Xaml''"
  using reading_never_fails
    [of "''MILE_PROJECT_VERSION_BUILD''" 360 1 "''MILE_PROJECT_PRODUCT_NAME''" "''Mile.Xaml''"]
  by (simp add: header_definitions_eq)

text \<open>
  C8. Including the header again defines nothing: the second inclusion leaves the macro
  table as the first left it, and its one effect is that the inclusion of
  \<^verbatim>\<open>Mile.Project.Version.h\<close>, which stands after the guarded block, is requested again.
  That request is made once by every inclusion of the header.
\<close>

theorem reinclusion:
  "include_header (include_header s) =
     (include_header s)\<lparr>included := included (include_header s) @ [''Mile.Project.Version.h'']\<rparr> \<and>
   macros (include_header (include_header s)) = macros (include_header s) \<and>
   included ((include_header ^^ k) s) = included s @ replicate k ''Mile.Project.Version.h''"
proof (intro conjI)
  show again: "include_header (include_header s) =
     (include_header s)\<lparr>included := included (include_header s) @ [''Mile.Project.Version.h'']\<rparr>"
    by (rule later_inclusion) (rule guard_defined_after)
  show "macros (include_header (include_header s)) = macros (include_header s)"
    by (simp only: again) simp
  show "included ((include_header ^^ k) s) = included s @ replicate k ''Mile.Project.Version.h''"
    by (rule repeated_inclusion_included)
qed

text \<open>
  C9. On a first inclusion each of the four version components reads as an integer that is
  at least 0 and less than \<open>2 ^ 16\<close>, so that the 16-bit word of a version resource holds
  it unchanged.
\<close>

theorem version_components_fit_16_bits:
  "\<not> is_defined ''MILE_PROJECT_PROPERTIES'' s \<Longrightarrow>
   n \<in> set [ ''MILE_PROJECT_VERSION_MAJOR'', ''MILE_PROJECT_VERSION_MINOR'',
             ''MILE_PROJECT_VERSION_BUILD'', ''MILE_PROJECT_VERSION_REVISION'' ] \<Longrightarrow>
   \<exists>v. read_int n (include_header s) = Inr v \<and> 0 \<le> v \<and> v < 2 ^ 16 \<and>
       uint (version_word v) = v"
  by (auto simp add: read_int_def first_inclusion_macros update_conv' version_word_def
      uint_word_of_int)

theorem version_components_fit_16_bits_witness:
  "\<not> is_defined ''MILE_PROJECT_PROPERTIES'' initial \<and>
   ''MILE_PROJECT_VERSION_BUILD'' \<in>
     set [ ''MILE_PROJECT_VERSION_MAJOR'', ''MILE_PROJECT_VERSION_MINOR'',
           ''MILE_PROJECT_VERSION_BUILD'', ''MILE_PROJECT_VERSION_REVISION'' ] \<and>
   (\<exists>v. read_int ''MILE_PROJECT_VERSION_BUILD'' (include_header initial) = Inr v \<and>
        0 \<le> v \<and> v < 2 ^ 16 \<and> uint (version_word v) = v)"
  using version_components_fit_16_bits [of initial "''MILE_PROJECT_VERSION_BUILD''"]
  by (simp add: is_defined_def initial_def)

text \<open>
  C10. The naming constants agree. On a first inclusion the file description, the internal
  name and the product name read as the same string, \<open>Mile.Xaml\<close>, and the original
  filename reads as the product name followed by \<open>.dll\<close>.
\<close>

theorem naming_consistent:
  "\<not> is_defined ''MILE_PROJECT_PROPERTIES'' s \<Longrightarrow>
   read_string ''MILE_PROJECT_PRODUCT_NAME'' (include_header s) = Inr ''Mile.Xaml'' \<and>
   read_string ''MILE_PROJECT_FILE_DESCRIPTION'' (include_header s) =
     read_string ''MILE_PROJECT_PRODUCT_NAME'' (include_header s) \<and>
   read_string ''MILE_PROJECT_INTERNAL_NAME'' (include_header s) =
     read_string ''MILE_PROJECT_PRODUCT_NAME'' (include_header s) \<and>
   read_string ''MILE_PROJECT_ORIGINAL_FILENAME'' (include_header s) =
     and_then (read_string ''MILE_PROJECT_PRODUCT_NAME'' (include_header s))
       (\<lambda>product. Inr (product @ ''.dll''))"
  by (simp add: read_string_def first_inclusion_macros update_conv' and_then_def)

theorem naming_consistent_witness:
  "\<not> is_defined ''MILE_PROJECT_PROPERTIES'' initial \<and>
   read_string ''MILE_PROJECT_PRODUCT_NAME'' (include_header initial) = Inr ''Mile.Xaml'' \<and>
   read_string ''MILE_PROJECT_FILE_DESCRIPTION'' (include_header initial) = Inr ''Mile.Xaml'' \<and>
   read_string ''MILE_PROJECT_INTERNAL_NAME'' (include_header initial) = Inr ''Mile.Xaml'' \<and>
   read_string ''MILE_PROJECT_ORIGINAL_FILENAME'' (include_header initial) =
     Inr (''Mile.Xaml'' @ ''.dll'')"
  using naming_consistent [of initial]
  by (simp add: is_defined_def initial_def and_then_def)

end
